theory Spec2Isabelle
  imports Complex_Main
begin

section \<open>Tokens of the selection language\<close>

text \<open>
  Modelled from the spec: class \<open>Token\<close> is declared in
  \<open>chemfiles/selections/lexer.hpp\<close>, which is not part of the sources at hand.
  The kinds are the ones the spec's data model lists; \<open>parser.cpp\<close> itself names
  \<open>Token::COMMA\<close>, \<open>Token::LPAREN\<close>, \<open>Token::RPAREN\<close>, \<open>Token::EQ\<close>,
  \<open>Token::AND\<close>, \<open>Token::OR\<close>, \<open>Token::NOT\<close> and \<open>Token::IDENT\<close>.
\<close>

datatype token =
    NUMBER real
  | IDENT string
  | VARIABLE nat
  | EQ | NEQ | LT | LE | GT | GE
  | AND | OR | NOT
  | LPAREN | RPAREN | COMMA

text \<open>Modelled from the spec: the classification methods of \<open>Token\<close>.\<close>

fun is_number :: "token \<Rightarrow> bool" where
  "is_number (NUMBER _) = True"
| "is_number _ = False"

fun is_variable :: "token \<Rightarrow> bool" where
  "is_variable (VARIABLE _) = True"
| "is_variable _ = False"

fun is_ident :: "token \<Rightarrow> bool" where
  "is_ident (IDENT _) = True"
| "is_ident _ = False"

definition is_boolean_op :: "token \<Rightarrow> bool" where
  "is_boolean_op t = (t = AND \<or> t = OR \<or> t = NOT)"

definition is_binary_op :: "token \<Rightarrow> bool" where
  "is_binary_op t = (t = EQ \<or> t = NEQ \<or> t = LT \<or> t = LE \<or> t = GT \<or> t = GE)"

definition is_operator :: "token \<Rightarrow> bool" where
  "is_operator t = (is_binary_op t \<or> is_boolean_op t)"

section \<open>Outcomes\<close>

text \<open>
  One constructor for each \<open>throw SelectionError(...)\<close> of \<open>parser.cpp\<close>:
  \<^item> \<open>Mismatched_comma\<close>: "Mismatched paretheses or additional comma found";
  \<^item> \<open>Mismatched_parentheses\<close>: "Mismatched parentheses";
  \<^item> \<open>Unknown_boolean_operator\<close>: "Unknown boolean operator. This is a bug.";
  \<^item> \<open>Bad_binary_operation t\<close>: "Bad binary operation around " followed by the
    text of token \<open>t\<close>;
  \<^item> \<open>Unknown_operation s\<close>: "Unknown operation: " followed by \<open>s\<close>;
  \<^item> \<open>Could_not_parse_selection\<close>: "Could not parse the selection";
  \<^item> \<open>Could_not_parse_end\<close>: "Could not parse the end of the selection.";
  \<^item> \<open>Bad_operand\<close>: the rejection by a property constructor of an operator or a
    value outside the property's domain (the constructors are modelled from the spec,
    see below).
\<close>

datatype selection_error =
    Mismatched_comma
  | Mismatched_parentheses
  | Unknown_boolean_operator
  | Bad_binary_operation token
  | Unknown_operation string
  | Could_not_parse_selection
  | Could_not_parse_end
  | Bad_operand

text \<open>
  Two operations of the code have no defined result: \<open>operators.top()\<close> on an empty
  \<open>std::stack\<close>, and reading through an iterator that equals \<open>end\<close>. The model
  returns them as outcomes of their own, distinct from every \<open>SelectionError\<close>.
\<close>

datatype undefined_behaviour = Top_of_empty_stack | Dereference_of_end

datatype failure =
    SelectionError selection_error
  | Undefined_behaviour undefined_behaviour

section \<open>The function table\<close>

definition FUNCTIONS :: "(string \<times> nat) list" where
  "FUNCTIONS =
     [(''name'', 1), (''mass'', 1), (''index'', 1),
      (''x'', 1), (''y'', 1), (''z'', 1),
      (''vx'', 1), (''vy'', 1), (''vz'', 1)]"

fun is_function :: "token \<Rightarrow> bool" where
  "is_function (IDENT s) = (map_of FUNCTIONS s \<noteq> None)"
| "is_function _ = False"

section \<open>The shunting-yard reducer\<close>

text \<open>
  The operator stack is a list whose head is the top; \<open>output.push_back\<close> appends at
  the end. \<open>Token::precedence\<close> is declared in the lexer's header, which is not part
  of the sources at hand: the reducer takes it as the parameter \<open>prec\<close>.
\<close>

type_synonym sy_state = "token list \<times> token list"

text \<open>The loop of the \<open>COMMA\<close> branch (lines 70 to 78).\<close>

fun comma_loop :: "token list \<Rightarrow> token list \<Rightarrow> failure + sy_state" where
  "comma_loop [] output = Inl (Undefined_behaviour Top_of_empty_stack)"
| "comma_loop (tp # operators) output =
     (if tp \<noteq> LPAREN then
        (if operators = [] then Inl (SelectionError Mismatched_comma)
         else comma_loop operators (output @ [tp]))
      else Inr (tp # operators, output))"

text \<open>The loop of the operator branch (lines 80 to 88).\<close>

fun operator_loop :: "(token \<Rightarrow> nat) \<Rightarrow> token \<Rightarrow> token list \<Rightarrow> token list \<Rightarrow> sy_state" where
  "operator_loop prec token [] output = ([], output)"
| "operator_loop prec token (tp # operators) output =
     (if prec token \<le> prec tp then operator_loop prec token operators (output @ [tp])
      else (tp # operators, output))"

text \<open>The loop of the \<open>RPAREN\<close> branch (lines 93 to 97).\<close>

fun rparen_loop :: "token list \<Rightarrow> token list \<Rightarrow> sy_state" where
  "rparen_loop [] output = ([], output)"
| "rparen_loop (tp # operators) output =
     (if tp \<noteq> LPAREN then rparen_loop operators (output @ [tp])
      else (tp # operators, output))"

text \<open>
  The rest of the \<open>RPAREN\<close> branch (lines 99 to 108): \<open>is_function(operators.top())\<close>
  is evaluated first, on whatever the loop left, then the test for the open
  parenthesis.
\<close>

fun rparen_finish :: "sy_state \<Rightarrow> failure + sy_state" where
  "rparen_finish ([], output) = Inl (Undefined_behaviour Top_of_empty_stack)"
| "rparen_finish (tp # operators, output) =
     (let (operators', output') =
            (if is_function tp then (operators, output @ [tp])
             else (tp # operators, output))
      in case operators' of
           [] \<Rightarrow> Inl (SelectionError Mismatched_parentheses)
         | tp' # rest \<Rightarrow>
             (if tp' \<noteq> LPAREN then Inl (SelectionError Mismatched_parentheses)
              else Inr (rest, output')))"

text \<open>The body of the main loop (lines 61 to 109), for one token.\<close>

definition shunting_yard_step :: "(token \<Rightarrow> nat) \<Rightarrow> token \<Rightarrow> sy_state \<Rightarrow> failure + sy_state" where
  "shunting_yard_step prec token st =
     (case st of (operators, output) \<Rightarrow>
        if is_number token \<or> is_variable token then Inr (operators, output @ [token])
        else if is_ident token then
          (if is_function token then Inr (token # operators, output)
           else Inr (operators, output @ [token]))
        else if token = COMMA then comma_loop operators output
        else if is_operator token then
          (case operator_loop prec token operators output of
             (operators', output') \<Rightarrow> Inr (token # operators', output'))
        else if token = LPAREN then Inr (token # operators, output)
        else if token = RPAREN then rparen_finish (rparen_loop operators output)
        else Inr (operators, output))"

text \<open>The main loop (lines 60 to 111).\<close>

fun shunting_yard_loop :: "(token \<Rightarrow> nat) \<Rightarrow> token list \<Rightarrow> sy_state \<Rightarrow> failure + sy_state" where
  "shunting_yard_loop prec [] st = Inr st"
| "shunting_yard_loop prec (token # tokens) st =
     (case shunting_yard_step prec token st of
        Inl e \<Rightarrow> Inl e
      | Inr st' \<Rightarrow> shunting_yard_loop prec tokens st')"

text \<open>The final loop that empties the stack (lines 112 to 120).\<close>

fun drain :: "token list \<Rightarrow> token list \<Rightarrow> failure + token list" where
  "drain [] output = Inr output"
| "drain (tp # operators) output =
     (if tp = LPAREN \<or> tp = RPAREN then Inl (SelectionError Mismatched_parentheses)
      else drain operators (output @ [tp]))"

definition shunting_yard :: "(token \<Rightarrow> nat) \<Rightarrow> token list \<Rightarrow> failure + token list" where
  "shunting_yard prec tokens =
     (case shunting_yard_loop prec tokens ([], []) of
        Inl e \<Rightarrow> Inl e
      | Inr (operators, output) \<Rightarrow>
          (case drain operators output of
             Inl e \<Rightarrow> Inl e
           | Inr output' \<Rightarrow> Inr (rev output')))"

section \<open>The short-form rewriter\<close>

definition have_short_form :: "string \<Rightarrow> bool" where
  "have_short_form expr = (expr = ''name'' \<or> expr = ''index'' \<or> expr = ''mass'')"

text \<open>
  \<open>clean_token_stream\<close> (lines 138 to 152): the list is what remains from the
  iterator \<open>it\<close> to \<open>stream.cend()\<close>, so \<open>it + 1\<close> is the tail.
\<close>

fun clean_token_stream :: "token list \<Rightarrow> token list" where
  "clean_token_stream [] = []"
| "clean_token_stream (IDENT s # stream) =
     (if have_short_form s then
        (case stream of
           [] \<Rightarrow> IDENT s # clean_token_stream stream
         | nxt # _ \<Rightarrow>
             (if \<not> is_operator nxt then IDENT s # EQ # clean_token_stream stream
              else IDENT s # clean_token_stream stream))
      else IDENT s # clean_token_stream stream)"
| "clean_token_stream (t # stream) = t # clean_token_stream stream"

section \<open>The syntax tree\<close>

text \<open>
  Modelled from the spec: the node classes (\<open>AndExpr\<close>, \<open>NameExpr\<close>, ...) are
  declared in \<open>chemfiles/selections/expr.hpp\<close>, which is not part of the sources at
  hand. The variants and their fields are those of the spec's data model; the
  comparison operator of a leaf is kept as its token.
\<close>

datatype axis = X | Y | Z

datatype ast =
    AllExpr
  | NoneExpr
  | NameExpr token string
  | IndexExpr token real
  | MassExpr token real
  | PositionExpr axis token real
  | VelocityExpr axis token real
  | AndExpr ast ast
  | OrExpr ast ast
  | NotExpr ast

text \<open>
  A parser gets the range from the cursor \<open>begin\<close> to \<open>end\<close> as a list and
  returns the node with the range that is left, or fails.
\<close>

type_synonym parsed = "failure + ast \<times> token list"

subsection \<open>The leaf constructors\<close>

text \<open>
  Modelled from the spec: the specialisations \<open>parse<NameExpr>\<close>, \<open>parse<IndexExpr>\<close>,
  \<open>parse<MassExpr>\<close>, \<open>parse<PositionExpr>\<close>, \<open>parse<VelocityExpr>\<close>, \<open>parse<AllExpr>\<close>
  and \<open>parse<NoneExpr>\<close> are defined outside \<open>parser.cpp\<close>. By the spec a property
  comparison reads, from the cursor, the operator, the value and the property
  identifier, and moves the cursor past the three; the value of a \<open>Name\<close> is a string
  compared by \<open>==\<close> or \<open>!=\<close> only, every other property has a numeric value; a
  mismatch is rejected before the node is built. \<open>all\<close> and \<open>none\<close> are one token.
\<close>

definition parse_NameExpr :: "token list \<Rightarrow> parsed" where
  "parse_NameExpr rng =
     (case rng of
        cmp # IDENT v # _ # rest \<Rightarrow>
          (if cmp = EQ \<or> cmp = NEQ then Inr (NameExpr cmp v, rest)
           else Inl (SelectionError Bad_operand))
      | _ \<Rightarrow> Inl (SelectionError Bad_operand))"

definition parse_IndexExpr :: "token list \<Rightarrow> parsed" where
  "parse_IndexExpr rng =
     (case rng of
        cmp # NUMBER v # _ # rest \<Rightarrow> Inr (IndexExpr cmp v, rest)
      | _ \<Rightarrow> Inl (SelectionError Bad_operand))"

definition parse_MassExpr :: "token list \<Rightarrow> parsed" where
  "parse_MassExpr rng =
     (case rng of
        cmp # NUMBER v # _ # rest \<Rightarrow> Inr (MassExpr cmp v, rest)
      | _ \<Rightarrow> Inl (SelectionError Bad_operand))"

definition parse_PositionExpr :: "token list \<Rightarrow> parsed" where
  "parse_PositionExpr rng =
     (case rng of
        cmp # NUMBER v # IDENT p # rest \<Rightarrow>
          (if p = ''x'' then Inr (PositionExpr X cmp v, rest)
           else if p = ''y'' then Inr (PositionExpr Y cmp v, rest)
           else if p = ''z'' then Inr (PositionExpr Z cmp v, rest)
           else Inl (SelectionError Bad_operand))
      | _ \<Rightarrow> Inl (SelectionError Bad_operand))"

definition parse_VelocityExpr :: "token list \<Rightarrow> parsed" where
  "parse_VelocityExpr rng =
     (case rng of
        cmp # NUMBER v # IDENT p # rest \<Rightarrow>
          (if p = ''vx'' then Inr (VelocityExpr X cmp v, rest)
           else if p = ''vy'' then Inr (VelocityExpr Y cmp v, rest)
           else if p = ''vz'' then Inr (VelocityExpr Z cmp v, rest)
           else Inl (SelectionError Bad_operand))
      | _ \<Rightarrow> Inl (SelectionError Bad_operand))"

definition parse_AllExpr :: "token list \<Rightarrow> parsed" where
  "parse_AllExpr rng =
     (case rng of
        _ # rest \<Rightarrow> Inr (AllExpr, rest)
      | [] \<Rightarrow> Inl (Undefined_behaviour Dereference_of_end))"

definition parse_NoneExpr :: "token list \<Rightarrow> parsed" where
  "parse_NoneExpr rng =
     (case rng of
        _ # rest \<Rightarrow> Inr (NoneExpr, rest)
      | [] \<Rightarrow> Inl (Undefined_behaviour Dereference_of_end))"

subsection \<open>The dispatcher\<close>

text \<open>
  \<open>dispatch_parsing\<close> (lines 154 to 197). Its first statement reads \<open>*begin\<close>; on an
  empty range that is a read through \<open>end\<close>. \<open>begin[2]\<close> is the third token of the
  range, read after the test \<open>(end - begin) < 3\<close>.

  Modelled from the spec: \<open>parse<AndExpr>\<close>, \<open>parse<OrExpr>\<close> and \<open>parse<NotExpr>\<close> are
  defined outside \<open>parser.cpp\<close>. By the spec they step over the operator and call the
  dispatcher once for each operand. The range lists the operands of an operator from
  the last to the first (it is the reducer's postfix output, reversed), so the first
  operand parsed is the right-hand one.
\<close>

function (sequential) dispatch_parsing :: "token list \<Rightarrow> parsed"
  and parse_AndExpr :: "token list \<Rightarrow> parsed"
  and parse_OrExpr :: "token list \<Rightarrow> parsed"
  and parse_NotExpr :: "token list \<Rightarrow> parsed"
where
  "dispatch_parsing [] = Inl (Undefined_behaviour Dereference_of_end)"
| "dispatch_parsing (t # ts) =
     (if is_boolean_op t then
        (if t = AND then parse_AndExpr (t # ts)
         else if t = OR then parse_OrExpr (t # ts)
         else if t = NOT then parse_NotExpr (t # ts)
         else Inl (SelectionError Unknown_boolean_operator))
      else if is_binary_op t then
        (if length (t # ts) < 3 then Inl (SelectionError (Bad_binary_operation t))
         else case (t # ts) ! 2 of
           IDENT ident \<Rightarrow>
             (if ident = ''name'' then parse_NameExpr (t # ts)
              else if ident = ''index'' then parse_IndexExpr (t # ts)
              else if ident = ''mass'' then parse_MassExpr (t # ts)
              else if ident = ''x'' \<or> ident = ''y'' \<or> ident = ''z'' then
                parse_PositionExpr (t # ts)
              else if ident = ''vx'' \<or> ident = ''vy'' \<or> ident = ''vz'' then
                parse_VelocityExpr (t # ts)
              else Inl (SelectionError (Unknown_operation ident)))
         | _ \<Rightarrow> Inl (SelectionError (Bad_binary_operation t)))
      else case t of
        IDENT ident \<Rightarrow>
          (if ident = ''all'' then parse_AllExpr (t # ts)
           else if ident = ''none'' then parse_NoneExpr (t # ts)
           else Inl (SelectionError (Unknown_operation ident)))
      | _ \<Rightarrow> Inl (SelectionError Could_not_parse_selection))"
| "parse_AndExpr [] = Inl (Undefined_behaviour Dereference_of_end)"
| "parse_AndExpr (t # ts) =
     (case dispatch_parsing ts of
        Inl e \<Rightarrow> Inl e
      | Inr (rhs, ts') \<Rightarrow>
          (case dispatch_parsing ts' of
             Inl e \<Rightarrow> Inl e
           | Inr (lhs, ts'') \<Rightarrow> Inr (AndExpr lhs rhs, ts'')))"
| "parse_OrExpr [] = Inl (Undefined_behaviour Dereference_of_end)"
| "parse_OrExpr (t # ts) =
     (case dispatch_parsing ts of
        Inl e \<Rightarrow> Inl e
      | Inr (rhs, ts') \<Rightarrow>
          (case dispatch_parsing ts' of
             Inl e \<Rightarrow> Inl e
           | Inr (lhs, ts'') \<Rightarrow> Inr (OrExpr lhs rhs, ts'')))"
| "parse_NotExpr [] = Inl (Undefined_behaviour Dereference_of_end)"
| "parse_NotExpr (t # ts) =
     (case dispatch_parsing ts of
        Inl e \<Rightarrow> Inl e
      | Inr (operand, ts') \<Rightarrow> Inr (NotExpr operand, ts'))"
  by pat_completeness auto

text \<open>
  Termination: every parser that returns a node returns a range shorter than the one
  it was given, so the second operand of \<open>and\<close> and \<open>or\<close> is parsed on a shorter range.
\<close>

lemma leaf_parsers_shorter:
  "parse_NameExpr ts = Inr (a, r) \<Longrightarrow> length r < length ts"
  "parse_IndexExpr ts = Inr (a, r) \<Longrightarrow> length r < length ts"
  "parse_MassExpr ts = Inr (a, r) \<Longrightarrow> length r < length ts"
  "parse_PositionExpr ts = Inr (a, r) \<Longrightarrow> length r < length ts"
  "parse_VelocityExpr ts = Inr (a, r) \<Longrightarrow> length r < length ts"
  "parse_AllExpr ts = Inr (a, r) \<Longrightarrow> length r < length ts"
  "parse_NoneExpr ts = Inr (a, r) \<Longrightarrow> length r < length ts"
  by (auto simp: parse_NameExpr_def parse_IndexExpr_def parse_MassExpr_def
      parse_PositionExpr_def parse_VelocityExpr_def parse_AllExpr_def parse_NoneExpr_def
      split: list.splits token.splits if_splits)

lemma dispatch_parsing_dom_shorter:
  "dispatch_parsing_parse_AndExpr_parse_OrExpr_parse_NotExpr_dom (Inl (Inl ts)) \<Longrightarrow>
     dispatch_parsing ts = Inr (a, r) \<Longrightarrow> length r < length ts"
  "dispatch_parsing_parse_AndExpr_parse_OrExpr_parse_NotExpr_dom (Inl (Inr ts1)) \<Longrightarrow>
     parse_AndExpr ts1 = Inr (a1, r1) \<Longrightarrow> length r1 < length ts1"
  "dispatch_parsing_parse_AndExpr_parse_OrExpr_parse_NotExpr_dom (Inr (Inl ts2)) \<Longrightarrow>
     parse_OrExpr ts2 = Inr (a2, r2) \<Longrightarrow> length r2 < length ts2"
  "dispatch_parsing_parse_AndExpr_parse_OrExpr_parse_NotExpr_dom (Inr (Inr ts3)) \<Longrightarrow>
     parse_NotExpr ts3 = Inr (a3, r3) \<Longrightarrow> length r3 < length ts3"
proof (induction ts and ts1 and ts2 and ts3 arbitrary: a r and a1 r1 and a2 r2 and a3 r3
    rule: dispatch_parsing_parse_AndExpr_parse_OrExpr_parse_NotExpr.pinduct)
  case 1
  then show ?case by (simp add: dispatch_parsing.psimps)
next
  case (2 t ts)
  note res = \<open>dispatch_parsing (t # ts) = Inr (a, r)\<close>
  note eq = dispatch_parsing.psimps(2) [OF "2.hyps"]
  show ?case
  proof (cases "is_boolean_op t")
    case True
    then consider "t = AND" | "t = OR" | "t = NOT"
      by (auto simp: is_boolean_op_def)
    then show ?thesis
    proof cases
      case 1
      with True res eq have "parse_AndExpr (t # ts) = Inr (a, r)" by simp
      with "2.IH"(1) True 1 show ?thesis by blast
    next
      case 2
      with True res eq have "parse_OrExpr (t # ts) = Inr (a, r)" by simp
      with "2.IH"(2) True 2 show ?thesis by blast
    next
      case 3
      with True res eq have "parse_NotExpr (t # ts) = Inr (a, r)" by simp
      with "2.IH"(3) True 3 show ?thesis by blast
    qed
  next
    case not_boolean: False
    have "parse_NameExpr (t # ts) = Inr (a, r) \<or> parse_IndexExpr (t # ts) = Inr (a, r)
        \<or> parse_MassExpr (t # ts) = Inr (a, r) \<or> parse_PositionExpr (t # ts) = Inr (a, r)
        \<or> parse_VelocityExpr (t # ts) = Inr (a, r) \<or> parse_AllExpr (t # ts) = Inr (a, r)
        \<or> parse_NoneExpr (t # ts) = Inr (a, r)"
    proof (cases "is_binary_op t")
      case True
      with not_boolean res eq show ?thesis
        by (simp split: if_splits token.splits)
    next
      case False
      with not_boolean res eq show ?thesis
        by (simp split: if_splits token.splits)
    qed
    then show ?thesis
      by (elim disjE) (erule leaf_parsers_shorter)+
  qed
next
  case 3
  then show ?case by (simp add: parse_AndExpr.psimps)
next
  case (4 t ts)
  then show ?case
    by (fastforce simp add: parse_AndExpr.psimps split: sum.splits prod.splits)
next
  case 5
  then show ?case by (simp add: parse_OrExpr.psimps)
next
  case (6 t ts)
  then show ?case
    by (fastforce simp add: parse_OrExpr.psimps split: sum.splits prod.splits)
next
  case 7
  then show ?case by (simp add: parse_NotExpr.psimps)
next
  case (8 t ts)
  then show ?case
    by (fastforce simp add: parse_NotExpr.psimps split: sum.splits prod.splits)
qed

termination dispatch_parsing
  apply (relation "measure (\<lambda>x. case x of
      Inl (Inl ts) \<Rightarrow> 2 * length ts + 1
    | Inl (Inr ts) \<Rightarrow> 2 * length ts
    | Inr (Inl ts) \<Rightarrow> 2 * length ts
    | Inr (Inr ts) \<Rightarrow> 2 * length ts)")
          apply simp_all
   apply (auto dest: dispatch_parsing_dom_shorter)
  done

subsection \<open>The entry point\<close>

text \<open>\<open>parse\<close> (lines 199 to 210).\<close>

definition parse :: "(token \<Rightarrow> nat) \<Rightarrow> token list \<Rightarrow> failure + ast" where
  "parse prec token_stream =
     (case shunting_yard prec (clean_token_stream token_stream) of
        Inl e \<Rightarrow> Inl e
      | Inr rpn \<Rightarrow>
          (case dispatch_parsing rpn of
             Inl e \<Rightarrow> Inl e
           | Inr (ast, rest) \<Rightarrow>
               (if rest \<noteq> [] then Inl (SelectionError Could_not_parse_end)
                else Inr ast)))"

section \<open>A precedence table\<close>

text \<open>
  Modelled from the spec: \<open>Token::precedence\<close> is defined in the lexer, which is not
  part of the sources at hand. The spec orders the operators only: \<open>not\<close> binds tighter
  than \<open>and\<close>, \<open>and\<close> tighter than \<open>or\<close>, and the comparison operators tighter than
  every boolean operator. The reducer also reads the precedence of whatever token is
  on top of the stack, which may be an open parenthesis or a property name. In this
  table a parenthesis is below every operator, as the spec's parenthesised selections
  need, and an identifier is above the comparison operators: \<open>dispatch_parsing\<close> reads
  the property name at \<open>begin[2]\<close>, behind the operator and the value, and the reducer's
  output has it there only when the incoming comparison operator pops the property
  name off the stack. The theorems below hold for every precedence function with the
  properties their hypotheses name; this table is the instance their witnesses use.
\<close>

definition precedence :: "token \<Rightarrow> nat" where
  "precedence t =
     (case t of
        IDENT _ \<Rightarrow> 50
      | EQ \<Rightarrow> 40 | NEQ \<Rightarrow> 40 | LT \<Rightarrow> 40 | LE \<Rightarrow> 40 | GT \<Rightarrow> 40 | GE \<Rightarrow> 40
      | NOT \<Rightarrow> 30
      | AND \<Rightarrow> 20
      | OR \<Rightarrow> 10
      | _ \<Rightarrow> 0)"

section \<open>The short-form rewriter, as the spec words it\<close>

text \<open>
  The spec's sentence, position by position: the token at position \<open>i\<close> is followed by
  an \<open>EQ\<close> token when it is an identifier with a short form, it is not the last token,
  and the token after it is not an operator; every other token stands alone. The
  output is what the positions give, in order.
\<close>

fun is_short_form_ident :: "token \<Rightarrow> bool" where
  "is_short_form_ident (IDENT s) = have_short_form s"
| "is_short_form_ident _ = False"

definition rewritten_at :: "token list \<Rightarrow> nat \<Rightarrow> token list" where
  "rewritten_at stream i =
     (if is_short_form_ident (stream ! i) \<and> Suc i < length stream
         \<and> \<not> is_operator (stream ! Suc i)
      then [stream ! i, EQ] else [stream ! i])"

definition short_form_rewrite :: "token list \<Rightarrow> token list" where
  "short_form_rewrite stream = concat (map (rewritten_at stream) [0..<length stream])"

section \<open>A count of operands\<close>



section \<open>Properties of the shunting-yard reducer\<close>

lemmas token_classes = is_operator_def is_binary_op_def is_boolean_op_def

lemma operator_loop_eq:
  "operator_loop prec token operators out =
     (dropWhile (\<lambda>t. prec token \<le> prec t) operators,
      out @ takeWhile (\<lambda>t. prec token \<le> prec t) operators)"
  by (induction operators arbitrary: out) simp_all

lemma rparen_loop_eq:
  "rparen_loop operators out =
     (dropWhile (\<lambda>t. t \<noteq> LPAREN) operators,
      out @ takeWhile (\<lambda>t. t \<noteq> LPAREN) operators)"
  by (induction operators arbitrary: out) simp_all

lemma is_operator_cases:
  "is_operator t \<Longrightarrow>
     \<not> is_number t \<and> \<not> is_variable t \<and> \<not> is_ident t \<and> t \<noteq> COMMA"
  by (cases t) (simp_all add: token_classes)

lemma dropWhile_not_LPAREN_cases:
  "dropWhile (\<lambda>t. t \<noteq> LPAREN) operators = []
   \<or> (\<exists>rest. dropWhile (\<lambda>t. t \<noteq> LPAREN) operators = LPAREN # rest)"
  by (induction operators) simp_all

text \<open>
  What the \<open>RPAREN\<close> branch does, on every stack: after the loop the stack is empty or
  has the open parenthesis on top, so \<open>is_function(operators.top())\<close> either reads the
  top of an empty stack or tests the parenthesis itself.
\<close>

lemma rparen_step_eq:
  "shunting_yard_step prec RPAREN (operators, out) =
     (case dropWhile (\<lambda>t. t \<noteq> LPAREN) operators of
        [] \<Rightarrow> Inl (Undefined_behaviour Top_of_empty_stack)
      | _ # rest \<Rightarrow> Inr (rest, out @ takeWhile (\<lambda>t. t \<noteq> LPAREN) operators))"
proof -
  have step: "shunting_yard_step prec RPAREN (operators, out) =
      rparen_finish (dropWhile (\<lambda>t. t \<noteq> LPAREN) operators,
        out @ takeWhile (\<lambda>t. t \<noteq> LPAREN) operators)"
    by (simp add: shunting_yard_step_def rparen_loop_eq token_classes)
  from dropWhile_not_LPAREN_cases [of operators] show ?thesis
  proof
    assume "dropWhile (\<lambda>t. t \<noteq> LPAREN) operators = []"
    then show ?thesis by (simp only: step rparen_finish.simps list.case)
  next
    assume "\<exists>rest. dropWhile (\<lambda>t. t \<noteq> LPAREN) operators = LPAREN # rest"
    then obtain rest where "dropWhile (\<lambda>t. t \<noteq> LPAREN) operators = LPAREN # rest" ..
    then show ?thesis by (simp add: step)
  qed
qed

text \<open>
  Claim C1. The claim: at a close parenthesis the operators are popped into the output
  until an open parenthesis is found, and a function identifier immediately below that
  parenthesis is popped to the output as well. The code: the operators above the open
  parenthesis go to the output and the parenthesis is discarded, on every stack; what
  lies below the parenthesis stays on the stack, a function identifier too. After
  the tokens \<open>x ( #1\<close> the stack holds the parenthesis on the function identifier
  \<open>x\<close>; the close parenthesis then leaves \<open>x\<close> on the stack and the output as it was.
\<close>

theorem rparen_step_keeps_function_identifier:
  "shunting_yard_step prec RPAREN (operators, out) =
     (case dropWhile (\<lambda>t. t \<noteq> LPAREN) operators of
        [] \<Rightarrow> Inl (Undefined_behaviour Top_of_empty_stack)
      | _ # rest \<Rightarrow> Inr (rest, out @ takeWhile (\<lambda>t. t \<noteq> LPAREN) operators))
   \<and> is_function (IDENT ''x'')
   \<and> shunting_yard_loop prec [IDENT ''x'', LPAREN, VARIABLE 1] ([], [])
       = Inr ([LPAREN, IDENT ''x''], [VARIABLE 1])
   \<and> shunting_yard_step prec RPAREN ([LPAREN, IDENT ''x''], [VARIABLE 1])
       = Inr ([IDENT ''x''], [VARIABLE 1])"
proof -
  have "shunting_yard_loop prec [IDENT ''x'', LPAREN, VARIABLE 1] ([], [])
      = Inr ([LPAREN, IDENT ''x''], [VARIABLE 1])"
    by (simp add: shunting_yard_step_def FUNCTIONS_def token_classes)
  then show ?thesis
    by (simp add: rparen_step_eq FUNCTIONS_def)
qed

text \<open>
  Claim C6. The claim: a close parenthesis with no matching open parenthesis raises
  the \<open>SelectionError\<close> "Mismatched parentheses". The code: the \<open>RPAREN\<close> branch never
  raises a \<open>SelectionError\<close>; with no open parenthesis on the stack its loop empties the
  stack and \<open>operators.top()\<close> is then read on the empty stack. For the tokens of
  \<open>name == foo)\<close> that is the outcome of the reducer and of \<open>parse\<close>, whatever the
  precedences are.
\<close>

theorem unmatched_rparen_reads_empty_stack:
  "(\<forall>e. shunting_yard_step prec RPAREN (operators, out) \<noteq> Inl (SelectionError e))
   \<and> shunting_yard prec [IDENT ''name'', EQ, IDENT ''foo'', RPAREN]
       = Inl (Undefined_behaviour Top_of_empty_stack)
   \<and> parse prec [IDENT ''name'', EQ, IDENT ''foo'', RPAREN]
       = Inl (Undefined_behaviour Top_of_empty_stack)"
proof -
  have "shunting_yard_step prec RPAREN (operators, out) \<noteq> Inl (SelectionError e)" for e
    by (simp add: rparen_step_eq split: list.split)
  moreover have rpn: "shunting_yard prec [IDENT ''name'', EQ, IDENT ''foo'', RPAREN]
      = Inl (Undefined_behaviour Top_of_empty_stack)"
    by (simp add: shunting_yard_def shunting_yard_step_def FUNCTIONS_def token_classes)
  moreover have "clean_token_stream [IDENT ''name'', EQ, IDENT ''foo'', RPAREN]
      = [IDENT ''name'', EQ, IDENT ''foo'', RPAREN]"
    by (simp add: have_short_form_def token_classes)
  then have "parse prec [IDENT ''name'', EQ, IDENT ''foo'', RPAREN]
      = Inl (Undefined_behaviour Top_of_empty_stack)"
    by (simp only: parse_def rpn sum.case)
  ultimately show ?thesis by simp
qed

text \<open>
  Claim C7. The claim: a comma that no open parenthesis on the stack encloses raises a
  \<open>SelectionError\<close>, also when the stack is empty. The code: the loop of the \<open>COMMA\<close>
  branch reads \<open>operators.top()\<close> before any test of \<open>operators.empty()\<close>, so a comma
  that arrives on an empty stack reads the top of an empty stack. The tokens of \<open>,\<close>
  and of \<open>1 , 2\<close> end so.
\<close>

theorem comma_on_empty_stack_reads_empty_stack:
  "shunting_yard_step prec COMMA ([], out) = Inl (Undefined_behaviour Top_of_empty_stack)
   \<and> shunting_yard prec [COMMA] = Inl (Undefined_behaviour Top_of_empty_stack)
   \<and> shunting_yard prec [NUMBER 1, COMMA, NUMBER 2]
       = Inl (Undefined_behaviour Top_of_empty_stack)"
  by (simp add: shunting_yard_def shunting_yard_step_def)

text \<open>
  On a stack that is not empty and holds no open parenthesis the comma does raise the
  error: the part of claim C7 the code meets.
\<close>

lemma comma_loop_no_LPAREN:
  "operators \<noteq> [] \<Longrightarrow> LPAREN \<notin> set operators \<Longrightarrow>
     comma_loop operators out = Inl (SelectionError Mismatched_comma)"
  by (induction operators arbitrary: out) auto


text \<open>
  Claim C8, as amended. When the incoming token is a comparison or boolean operator,
  the step pops to the output, from the top of the stack down, every token whose
  precedence is greater than or equal to the operator's, stops at the first token
  whose precedence is lower, and pushes the operator. The loop tests the precedence
  only, never the kind of the token on the stack: an open parenthesis or a function
  identifier stays on the stack exactly when its precedence is lower than the
  incoming operator's.
\<close>

theorem operator_step_pops_by_precedence:
  assumes "is_operator token"
  shows "shunting_yard_step prec token (operators, out) =
           Inr (token # dropWhile (\<lambda>t. prec token \<le> prec t) operators,
                out @ takeWhile (\<lambda>t. prec token \<le> prec t) operators)"
  using assms is_operator_cases [OF assms]
  by (simp add: shunting_yard_step_def operator_loop_eq)

theorem operator_step_pops_by_precedence_witness:
  "is_operator AND
   \<and> shunting_yard_step precedence AND ([EQ, OR, LPAREN], [IDENT ''name'', IDENT ''foo''])
       = Inr ([AND, OR, LPAREN], [IDENT ''name'', IDENT ''foo'', EQ])"
  using operator_step_pops_by_precedence
    [of AND precedence "[EQ, OR, LPAREN]" "[IDENT ''name'', IDENT ''foo'']"]
  by (simp add: token_classes precedence_def)

text \<open>
  Whatever the precedences are, the tokens of \<open>name == foo\<close> parse to a tree only if
  the incoming \<open>==\<close> pops the property name off the stack: otherwise the reducer's
  output starts with the property name and the dispatcher rejects it.
\<close>

lemma name_comparison_needs_pop:
  assumes "parse prec [IDENT ''name'', EQ, IDENT ''foo''] = Inr ast"
  shows "prec EQ \<le> prec (IDENT ''name'')
       \<and> shunting_yard_step prec EQ ([IDENT ''name''], []) = Inr ([EQ], [IDENT ''name''])"
proof (cases "prec EQ \<le> prec (IDENT ''name'')")
  case True
  then show ?thesis
    by (simp add: shunting_yard_step_def token_classes)
next
  case False
  then have "parse prec [IDENT ''name'', EQ, IDENT ''foo'']
      = Inl (SelectionError (Unknown_operation ''name''))"
    by (simp add: parse_def have_short_form_def token_classes shunting_yard_def
        shunting_yard_step_def FUNCTIONS_def)
  with assms show ?thesis by simp
qed

text \<open>
  Claim C8 as stated fails: with the property name \<open>name\<close> on the stack, the incoming
  \<open>==\<close> pops it to the output (this is how \<open>name == foo\<close> comes to read \<open>== foo name\<close>
  for the dispatcher).
\<close>

theorem operator_step_pops_function_identifier:
  "is_function (IDENT ''name'')
   \<and> shunting_yard_step precedence EQ ([IDENT ''name''], []) = Inr ([EQ], [IDENT ''name''])"
  by (simp add: shunting_yard_step_def token_classes precedence_def FUNCTIONS_def)

section \<open>Properties of the short-form rewriter\<close>

lemma rewritten_at_Suc: "rewritten_at (t # stream) (Suc i) = rewritten_at stream i"
  by (simp add: rewritten_at_def)

lemma short_form_rewrite_Cons:
  "short_form_rewrite (t # stream) = rewritten_at (t # stream) 0 @ short_form_rewrite stream"
proof -
  have "[0..<length (t # stream)] = 0 # map Suc [0..<length stream]"
    by (simp add: upt_conv_Cons map_Suc_upt del: upt_Suc)
  then show ?thesis
    by (simp add: short_form_rewrite_def rewritten_at_Suc comp_def del: upt_Suc)
qed

lemma clean_token_stream_Cons:
  "clean_token_stream (t # stream) = rewritten_at (t # stream) 0 @ clean_token_stream stream"
  by (cases t; cases stream) (simp_all add: rewritten_at_def)

lemma clean_token_stream_eq_rewrite:
  "clean_token_stream stream = short_form_rewrite stream"
proof (induction stream)
  case Nil
  show ?case by (simp add: short_form_rewrite_def)
next
  case (Cons t stream)
  then show ?case
    by (simp only: clean_token_stream_Cons short_form_rewrite_Cons)
qed

lemma rewritten_at_last: "rewritten_at (pre @ [t]) (length pre) = [t]"
  by (simp add: rewritten_at_def)

text \<open>
  Claim C3. For every token sequence the rewriter's output is the sequence the spec
  describes: each identifier \<open>name\<close>, \<open>index\<close> or \<open>mass\<close> that has a next token which
  is not an operator is followed by an \<open>EQ\<close> token and then by that next token, every
  other token is copied, in order; and the last token of the stream, a short-form
  identifier or not, is copied alone.
\<close>

theorem clean_token_stream_rewrites_short_forms:
  "clean_token_stream stream = short_form_rewrite stream
   \<and> clean_token_stream (pre @ [t])
       = concat (map (rewritten_at (pre @ [t])) [0..<length pre]) @ [t]"
proof
  show "clean_token_stream stream = short_form_rewrite stream"
    by (rule clean_token_stream_eq_rewrite)
  have "clean_token_stream (pre @ [t])
      = concat (map (rewritten_at (pre @ [t])) [0..<Suc (length pre)])"
    using clean_token_stream_eq_rewrite [of "pre @ [t]"]
    by (simp only: short_form_rewrite_def length_append_singleton)
  then show "clean_token_stream (pre @ [t])
      = concat (map (rewritten_at (pre @ [t])) [0..<length pre]) @ [t]"
    by (simp add: rewritten_at_last)
qed

section \<open>Properties of the entry point\<close>

text \<open>
  Claim C10. On an empty token stream the rewriter and the reducer return empty
  sequences, and \<open>dispatch_parsing\<close> then reads \<open>*begin\<close> with \<open>begin = end\<close>: the outcome
  of \<open>parse\<close> is that undefined read, and no \<open>SelectionError\<close>. The read at the head
  of \<open>dispatch_parsing\<close> is defined only on a range that is not empty.
\<close>

theorem parse_empty_stream_undefined:
  "dispatch_parsing [] = Inl (Undefined_behaviour Dereference_of_end)
   \<and> parse prec [] = Inl (Undefined_behaviour Dereference_of_end)
   \<and> (\<forall>e. parse prec [] \<noteq> Inl (SelectionError e))"
  by (simp add: parse_def shunting_yard_def)

section \<open>Properties of the dispatcher\<close>

lemmas leaf_parsers = parse_NameExpr_def parse_IndexExpr_def parse_MassExpr_def
  parse_PositionExpr_def parse_VelocityExpr_def parse_AllExpr_def parse_NoneExpr_def

text \<open>The names the dispatcher knows after a comparison are those of the function table.\<close>

lemma is_function_iff:
  "is_function (IDENT s) =
     (s = ''name'' \<or> s = ''mass'' \<or> s = ''index'' \<or> s = ''x'' \<or> s = ''y'' \<or> s = ''z''
      \<or> s = ''vx'' \<or> s = ''vy'' \<or> s = ''vz'')"
  by (simp add: FUNCTIONS_def)

text \<open>
  Claim C4, as amended. At a comparison operator the dispatcher fails with "Bad binary
  operation around" the operator when fewer than three tokens are left in the range,
  or when the third token of the range (\<open>begin[2]\<close>, two positions after the operator)
  is not an identifier token. When that token is an identifier that names no property
  it fails with another error, "Unknown operation:" followed by the identifier. When
  it names a property the dispatcher hands the range to the constructor of that
  property: \<open>Name\<close>, \<open>Index\<close>, \<open>Mass\<close>, \<open>Position\<close> for \<open>x\<close>, \<open>y\<close>, \<open>z\<close>, and
  \<open>Velocity\<close> for \<open>vx\<close>, \<open>vy\<close>, \<open>vz\<close>.
\<close>

theorem binary_operation_dispatch:
  assumes "is_binary_op t"
  shows "(length (t # ts) < 3 \<longrightarrow>
            dispatch_parsing (t # ts) = Inl (SelectionError (Bad_binary_operation t)))
       \<and> (3 \<le> length (t # ts) \<and> \<not> is_ident ((t # ts) ! 2) \<longrightarrow>
            dispatch_parsing (t # ts) = Inl (SelectionError (Bad_binary_operation t)))
       \<and> (3 \<le> length (t # ts) \<and> (t # ts) ! 2 = IDENT s \<and> \<not> is_function (IDENT s) \<longrightarrow>
            dispatch_parsing (t # ts) = Inl (SelectionError (Unknown_operation s)))
       \<and> (3 \<le> length (t # ts) \<and> (t # ts) ! 2 = IDENT s \<and> is_function (IDENT s) \<longrightarrow>
            dispatch_parsing (t # ts) =
              (if s = ''name'' then parse_NameExpr (t # ts)
               else if s = ''index'' then parse_IndexExpr (t # ts)
               else if s = ''mass'' then parse_MassExpr (t # ts)
               else if s = ''x'' \<or> s = ''y'' \<or> s = ''z'' then parse_PositionExpr (t # ts)
               else parse_VelocityExpr (t # ts)))"
proof -
  from assms have not_boolean: "\<not> is_boolean_op t"
    by (auto simp: is_binary_op_def is_boolean_op_def)
  have short: "dispatch_parsing (t # ts) = Inl (SelectionError (Bad_binary_operation t))"
    if "length (t # ts) < 3"
    using that assms not_boolean by simp
  have no_ident: "dispatch_parsing (t # ts) = Inl (SelectionError (Bad_binary_operation t))"
    if "3 \<le> length (t # ts)" and "\<not> is_ident ((t # ts) ! 2)"
    using that assms not_boolean by (cases "(t # ts) ! 2") simp_all
  have unknown: "dispatch_parsing (t # ts) = Inl (SelectionError (Unknown_operation s))"
    if "3 \<le> length (t # ts)" and "(t # ts) ! 2 = IDENT s" and "\<not> is_function (IDENT s)"
    using that assms not_boolean by (simp add: is_function_iff del: is_function.simps)
  have known: "dispatch_parsing (t # ts) =
      (if s = ''name'' then parse_NameExpr (t # ts)
       else if s = ''index'' then parse_IndexExpr (t # ts)
       else if s = ''mass'' then parse_MassExpr (t # ts)
       else if s = ''x'' \<or> s = ''y'' \<or> s = ''z'' then parse_PositionExpr (t # ts)
       else parse_VelocityExpr (t # ts))"
    if "3 \<le> length (t # ts)" and "(t # ts) ! 2 = IDENT s" and "is_function (IDENT s)"
    using that assms not_boolean by (auto simp add: is_function_iff simp del: is_function.simps)
  from short no_ident unknown known show ?thesis by blast
qed

theorem binary_operation_dispatch_witness:
  "is_binary_op EQ \<and> is_function (IDENT ''name'')
   \<and> dispatch_parsing [EQ, IDENT ''foo'', IDENT ''name''] = Inr (NameExpr EQ ''foo'', [])
   \<and> dispatch_parsing [EQ, IDENT ''foo''] = Inl (SelectionError (Bad_binary_operation EQ))"
  using binary_operation_dispatch [of EQ "[IDENT ''foo'', IDENT ''name'']" "''name''"]
    binary_operation_dispatch [of EQ "[IDENT ''foo'']" "''name''"]
  by (simp add: token_classes FUNCTIONS_def leaf_parsers)

text \<open>
  Claim C4 as stated fails: after \<open>==\<close> and \<open>foo\<close>, the identifier \<open>bar\<close> names no
  property, and the error is "Unknown operation: bar", not "Bad binary operation
  around ==".
\<close>

theorem unknown_property_is_unknown_operation:
  "is_binary_op EQ \<and> \<not> is_function (IDENT ''bar'')
   \<and> dispatch_parsing [EQ, IDENT ''foo'', IDENT ''bar'']
       = Inl (SelectionError (Unknown_operation ''bar''))
   \<and> dispatch_parsing [EQ, IDENT ''foo'', IDENT ''bar'']
       \<noteq> Inl (SelectionError (Bad_binary_operation EQ))"
  by (simp add: token_classes FUNCTIONS_def)


section \<open>Properties of the whole parser\<close>

text \<open>
  Claim C2. For the tokens of \<open>name == foo or index == 3 and mass == 1\<close> the reducer
  returns \<open>or and == 1 mass == 3 index == foo name\<close>, the \<open>and\<close> inside the \<open>or\<close>, and
  \<open>parse\<close> returns \<open>Or(Name(==, foo), And(Index(==, 3), Mass(==, 1)))\<close>, for every
  precedence function that puts \<open>or\<close> below \<open>and\<close>, \<open>and\<close> below \<open>==\<close>, and the three
  property names at or above \<open>==\<close>.
\<close>

theorem and_binds_tighter_than_or:
  assumes "prec OR < prec AND" and "prec AND < prec EQ"
    and "prec EQ \<le> prec (IDENT ''name'')" and "prec EQ \<le> prec (IDENT ''index'')"
    and "prec EQ \<le> prec (IDENT ''mass'')"
  shows "shunting_yard prec
           [IDENT ''name'', EQ, IDENT ''foo'', OR,
            IDENT ''index'', EQ, NUMBER 3, AND,
            IDENT ''mass'', EQ, NUMBER 1]
         = Inr [OR, AND, EQ, NUMBER 1, IDENT ''mass'', EQ, NUMBER 3, IDENT ''index'',
                EQ, IDENT ''foo'', IDENT ''name'']
       \<and> parse prec
           [IDENT ''name'', EQ, IDENT ''foo'', OR,
            IDENT ''index'', EQ, NUMBER 3, AND,
            IDENT ''mass'', EQ, NUMBER 1]
         = Inr (OrExpr (NameExpr EQ ''foo'') (AndExpr (IndexExpr EQ 3) (MassExpr EQ 1)))"
proof -
  have ops: "\<not> prec EQ \<le> prec OR" "\<not> prec EQ \<le> prec AND" "\<not> prec AND \<le> prec OR"
    "prec AND \<le> prec EQ" "prec OR \<le> prec EQ" "prec OR \<le> prec AND"
    using assms(1,2) by simp_all
  have clean: "clean_token_stream
      [IDENT ''name'', EQ, IDENT ''foo'', OR, IDENT ''index'', EQ, NUMBER 3, AND,
       IDENT ''mass'', EQ, NUMBER 1]
    = [IDENT ''name'', EQ, IDENT ''foo'', OR, IDENT ''index'', EQ, NUMBER 3, AND,
       IDENT ''mass'', EQ, NUMBER 1]"
    by (simp add: have_short_form_def token_classes)
  have rpn: "shunting_yard prec
      [IDENT ''name'', EQ, IDENT ''foo'', OR, IDENT ''index'', EQ, NUMBER 3, AND,
       IDENT ''mass'', EQ, NUMBER 1]
    = Inr [OR, AND, EQ, NUMBER 1, IDENT ''mass'', EQ, NUMBER 3, IDENT ''index'',
           EQ, IDENT ''foo'', IDENT ''name'']"
    using assms(3-5) ops
    by (simp add: shunting_yard_def shunting_yard_step_def FUNCTIONS_def token_classes)
  have ast: "dispatch_parsing
      [OR, AND, EQ, NUMBER 1, IDENT ''mass'', EQ, NUMBER 3, IDENT ''index'',
       EQ, IDENT ''foo'', IDENT ''name'']
    = Inr (OrExpr (NameExpr EQ ''foo'') (AndExpr (IndexExpr EQ 3) (MassExpr EQ 1)), [])"
    by (simp add: token_classes leaf_parsers)
  have "parse prec
      [IDENT ''name'', EQ, IDENT ''foo'', OR, IDENT ''index'', EQ, NUMBER 3, AND,
       IDENT ''mass'', EQ, NUMBER 1]
    = Inr (OrExpr (NameExpr EQ ''foo'') (AndExpr (IndexExpr EQ 3) (MassExpr EQ 1)))"
    by (simp only: parse_def clean rpn ast sum.case prod.case if_False simp_thms)
  with rpn show ?thesis ..
qed

theorem and_binds_tighter_than_or_witness:
  "precedence OR < precedence AND \<and> precedence AND < precedence EQ
   \<and> precedence EQ \<le> precedence (IDENT ''name'')
   \<and> precedence EQ \<le> precedence (IDENT ''index'')
   \<and> precedence EQ \<le> precedence (IDENT ''mass'')
   \<and> parse precedence
         [IDENT ''name'', EQ, IDENT ''foo'', OR,
          IDENT ''index'', EQ, NUMBER 3, AND,
          IDENT ''mass'', EQ, NUMBER 1]
       = Inr (OrExpr (NameExpr EQ ''foo'') (AndExpr (IndexExpr EQ 3) (MassExpr EQ 1)))"
  using and_binds_tighter_than_or [of precedence]
  by (simp add: precedence_def)

text \<open>
  The rewriter gives the short form and the long form of a comparison the same
  stream, so \<open>parse\<close> has the same outcome on both, for every precedence function.
\<close>

lemma clean_short_form_pair:
  "have_short_form s \<Longrightarrow> \<not> is_operator v \<Longrightarrow>
     clean_token_stream [IDENT s, v] = clean_token_stream [IDENT s, EQ, v]"
  by (cases v) (simp_all add: token_classes)

lemma short_form_same_outcome:
  assumes "have_short_form s" and "\<not> is_operator v"
  shows "parse prec [IDENT s, v] = parse prec [IDENT s, EQ, v]"
proof -
  from assms have "clean_token_stream [IDENT s, v] = clean_token_stream [IDENT s, EQ, v]"
    by (rule clean_short_form_pair)
  then show ?thesis
    by (simp only: parse_def)
qed

lemma comparison_rpn:
  assumes "is_function (IDENT s)" and "prec EQ \<le> prec (IDENT s)"
    and "is_number v \<or> (is_ident v \<and> \<not> is_function v)"
  shows "shunting_yard prec [IDENT s, EQ, v] = Inr [EQ, v, IDENT s]"
  using assms
  by (cases v) (simp_all add: shunting_yard_def shunting_yard_step_def token_classes)

text \<open>
  Claim C9. \<open>parse\<close> has the same outcome on the tokens of \<open>name foo\<close> and of
  \<open>name == foo\<close>, on those of \<open>index 3\<close> and of \<open>index == 3\<close>, and on those of
  \<open>mass 12\<close> and of \<open>mass == 12\<close>, for every precedence function. The outcome is the
  tree \<open>Name(==, foo)\<close>, \<open>Index(==, 3)\<close> and \<open>Mass(==, 12)\<close> for every precedence
  function that puts the property name at or above \<open>==\<close>.
\<close>

theorem short_form_equivalence:
  "parse prec [IDENT ''name'', IDENT ''foo''] = parse prec [IDENT ''name'', EQ, IDENT ''foo'']
   \<and> parse prec [IDENT ''index'', NUMBER 3] = parse prec [IDENT ''index'', EQ, NUMBER 3]
   \<and> parse prec [IDENT ''mass'', NUMBER 12] = parse prec [IDENT ''mass'', EQ, NUMBER 12]
   \<and> (prec EQ \<le> prec (IDENT ''name'') \<longrightarrow>
        parse prec [IDENT ''name'', EQ, IDENT ''foo''] = Inr (NameExpr EQ ''foo''))
   \<and> (prec EQ \<le> prec (IDENT ''index'') \<longrightarrow>
        parse prec [IDENT ''index'', EQ, NUMBER 3] = Inr (IndexExpr EQ 3))
   \<and> (prec EQ \<le> prec (IDENT ''mass'') \<longrightarrow>
        parse prec [IDENT ''mass'', EQ, NUMBER 12] = Inr (MassExpr EQ 12))"
proof -
  have name: "parse prec [IDENT ''name'', EQ, IDENT ''foo''] = Inr (NameExpr EQ ''foo'')"
    if "prec EQ \<le> prec (IDENT ''name'')"
    using that
    by (simp add: parse_def have_short_form_def token_classes comparison_rpn FUNCTIONS_def
        leaf_parsers)
  have index: "parse prec [IDENT ''index'', EQ, NUMBER 3] = Inr (IndexExpr EQ 3)"
    if "prec EQ \<le> prec (IDENT ''index'')"
    using that
    by (simp add: parse_def have_short_form_def token_classes comparison_rpn FUNCTIONS_def
        leaf_parsers)
  have mass: "parse prec [IDENT ''mass'', EQ, NUMBER 12] = Inr (MassExpr EQ 12)"
    if "prec EQ \<le> prec (IDENT ''mass'')"
    using that
    by (simp add: parse_def have_short_form_def token_classes comparison_rpn FUNCTIONS_def
        leaf_parsers)
  have "parse prec [IDENT ''name'', IDENT ''foo'']
      = parse prec [IDENT ''name'', EQ, IDENT ''foo'']"
    by (rule short_form_same_outcome) (simp_all add: have_short_form_def token_classes)
  moreover have "parse prec [IDENT ''index'', NUMBER 3]
      = parse prec [IDENT ''index'', EQ, NUMBER 3]"
    by (rule short_form_same_outcome) (simp_all add: have_short_form_def token_classes)
  moreover have "parse prec [IDENT ''mass'', NUMBER 12]
      = parse prec [IDENT ''mass'', EQ, NUMBER 12]"
    by (rule short_form_same_outcome) (simp_all add: have_short_form_def token_classes)
  ultimately show ?thesis
    using name index mass by blast
qed

theorem short_form_equivalence_witness:
  "precedence EQ \<le> precedence (IDENT ''name'')
   \<and> precedence EQ \<le> precedence (IDENT ''index'')
   \<and> precedence EQ \<le> precedence (IDENT ''mass'')
   \<and> parse precedence [IDENT ''name'', IDENT ''foo''] = Inr (NameExpr EQ ''foo'')
   \<and> parse precedence [IDENT ''name'', EQ, IDENT ''foo''] = Inr (NameExpr EQ ''foo'')
   \<and> parse precedence [IDENT ''index'', NUMBER 3] = Inr (IndexExpr EQ 3)
   \<and> parse precedence [IDENT ''index'', EQ, NUMBER 3] = Inr (IndexExpr EQ 3)
   \<and> parse precedence [IDENT ''mass'', NUMBER 12] = Inr (MassExpr EQ 12)
   \<and> parse precedence [IDENT ''mass'', EQ, NUMBER 12] = Inr (MassExpr EQ 12)"
  using short_form_equivalence [of precedence]
  by (simp add: precedence_def)





































end
